theory Spec2Isabelle
  imports Main "HOL-Library.AList"
begin

section \<open>Values exchanged with the client\<close>

text \<open>
  A signed token, kept symbolically: the header entry \<open>user_id\<close>, the algorithm
  name, the three registered entries of the payload (whole seconds since the epoch, as
  PyJWT writes a \<open>datetime\<close>) and the key the signature was made with. The
  base64url text and the HMAC itself are not computed; a signature verifies exactly
  under the key it was made with.
\<close>

record jwt_claims =
  exp :: int
  iat :: int
  sub :: int

record jwt =
  header_user_id :: int
  header_alg :: string
  claims :: jwt_claims
  signed_with :: string

text \<open>
  What \<open>request.get_json()\<close> returns and what \<open>jsonify\<close> sends. \<open>JNull\<close> is
  Python's \<open>None\<close>. \<open>JObj\<close> lists the members in the order of the text; where a
  name is repeated the last member counts, as in \<open>json.loads\<close>. Numbers are the
  integers.
\<close>

datatype json =
    JNull
  | JBool bool
  | JNum int
  | JStr string
  | JArr "json list"
  | JObj "(string \<times> json) list"

text \<open>Python's truth value of a parsed JSON value (\<open>not x\<close> is its negation).\<close>

fun truthy :: "json \<Rightarrow> bool" where
  "truthy JNull = False"
| "truthy (JBool b) = b"
| "truthy (JNum n) = (n \<noteq> 0)"
| "truthy (JStr s) = (s \<noteq> [])"
| "truthy (JArr xs) = (xs \<noteq> [])"
| "truthy (JObj kvs) = (kvs \<noteq> [])"

text \<open>The exceptions that occur in the handlers. \<open>is_sqlalchemy_error\<close> is the
  subclass test of \<open>except exc.SQLAlchemyError\<close>.\<close>

datatype exn =
    AttributeError
  | TypeError
  | ValidationError
  | NoResultFound
  | MultipleResultsFound
  | InvalidRequestError
  | IntegrityError
  | OperationalError
  | InterfaceError

fun is_sqlalchemy_error :: "exn \<Rightarrow> bool" where
  "is_sqlalchemy_error NoResultFound = True"
| "is_sqlalchemy_error MultipleResultsFound = True"
| "is_sqlalchemy_error InvalidRequestError = True"
| "is_sqlalchemy_error IntegrityError = True"
| "is_sqlalchemy_error OperationalError = True"
| "is_sqlalchemy_error InterfaceError = True"
| "is_sqlalchemy_error e = False"

text \<open>\<open>d.get(k)\<close>: the member of a dict, \<open>None\<close> when it has none of that name;
  on any other value (\<open>None\<close>, a list, a string, a number) there is no method
  \<open>get\<close> and Python raises \<open>AttributeError\<close>.\<close>

definition member :: "(string \<times> json) list \<Rightarrow> string \<Rightarrow> json" where
  "member kvs k = (case map_of (rev kvs) k of None \<Rightarrow> JNull | Some v \<Rightarrow> v)"

fun dict_get :: "json \<Rightarrow> string \<Rightarrow> exn + json" where
  "dict_get (JObj kvs) k = Inr (member kvs k)"
| "dict_get j k = Inl AttributeError"

text \<open>
  What a view function does: it returns a response (a status and a JSON or text body;
  a dict returned as such is sent with status 200, \<open>abort(404, description=d)\<close> is
  the response 404 carrying \<open>d\<close>), or an exception leaves it, which Flask answers
  with 500. \<open>TokenJson t\<close> is the body \<open>jsonify({'token': token})\<close>: the object
  whose one member \<open>token\<close> is the string that \<open>jwt.encode\<close> returned for \<open>t\<close>.
\<close>

datatype body = Json json | Text string | TokenJson jwt

datatype reply = Reply nat body | Raised exn

fun status :: "reply \<Rightarrow> nat" where
  "status (Reply s b) = s"
| "status (Raised e) = 500"



definition message :: "string \<Rightarrow> body" where
  "message m = Json (JObj [(''message'', JStr m)])"

section \<open>The store\<close>

text \<open>
  A \<open>Region\<close> or \<open>Event\<close> instance is its attribute dictionary. The classes are
  declared in \<open>paralympics/models.py\<close>, which is not among the sources; the routes
  use \<open>Region.NOC\<close> and \<open>Event.id\<close>. A \<open>User\<close> has the attributes the routes
  use, \<open>id\<close> and \<open>email\<close>, and the hash that \<open>set_password\<close> stores. The
  email is the text the store holds, \<open>None\<close> for \<open>NULL\<close>.
\<close>

type_synonym row = "(string \<times> json) list"

record user =
  user_id :: int
  email :: "string option"
  password_hash :: string

record db =
  regions :: "row list"
  events :: "row list"
  users :: "user list"

text \<open>\<open>getattr\<close> on an instance; an attribute never set reads \<open>None\<close>.\<close>

definition col :: "row \<Rightarrow> string \<Rightarrow> json" where
  "col r k = (case map_of r k of None \<Rightarrow> JNull | Some v \<Rightarrow> v)"

text \<open>\<open>.scalar_one_or_none()\<close> and \<open>.scalar_one()\<close> on the rows a query selects.\<close>

fun scalar_one_or_none :: "'a list \<Rightarrow> exn + 'a option" where
  "scalar_one_or_none [] = Inr None"
| "scalar_one_or_none [x] = Inr (Some x)"
| "scalar_one_or_none xs = Inl MultipleResultsFound"

fun scalar_one :: "'a list \<Rightarrow> exn + 'a" where
  "scalar_one [] = Inl NoResultFound"
| "scalar_one [x] = Inr x"
| "scalar_one xs = Inl MultipleResultsFound"

text \<open>\<open>db.select(M).filter_by(a=v)\<close> on a table of instances of a class whose mapped
  attributes are \<open>attrs\<close>: SQLAlchemy raises \<open>InvalidRequestError\<close> while it builds
  the statement when the class has no attribute \<open>a\<close>.\<close>

definition filter_by :: "string list \<Rightarrow> string \<Rightarrow> json \<Rightarrow> row list \<Rightarrow> exn + row list" where
  "filter_by attrs a v tbl =
     (if a \<in> set attrs then Inr (filter (\<lambda>r. col r a = v) tbl) else Inl InvalidRequestError)"

definition region_by_noc :: "db \<Rightarrow> string \<Rightarrow> row list" where
  "region_by_noc d code = filter (\<lambda>r. col r ''NOC'' = JStr code) (regions d)"

text \<open>\<open>decimal\<close> is the text of an integer (in an f-string, and in the store when an
  integer meets a text column).\<close>

fun digits :: "nat \<Rightarrow> string" where
  "digits n = (if n < 10 then [char_of (48 + n)] else digits (n div 10) @ [char_of (48 + n mod 10)])"

definition decimal :: "int \<Rightarrow> string" where
  "decimal i = (if i < 0 then CHR ''-'' # digits (nat (- i)) else digits (nat i))"

text \<open>
  The routes pass the member of the body as it is to \<open>filter_by(email=...)\<close> and
  to \<open>User(email=...)\<close>; the statement binds it as a parameter when it is executed.
  A string is bound as it is and \<open>None\<close> as \<open>NULL\<close>; an integer or a boolean is
  bound as an integer, which the text column compares and stores as its decimal text; a
  list or a dict cannot be bound, and the execution raises (SQLAlchemy's
  \<open>InterfaceError\<close>).
\<close>

fun bind_param :: "json \<Rightarrow> exn + string option" where
  "bind_param JNull = Inr None"
| "bind_param (JBool b) = Inr (Some (if b then ''1'' else ''0''))"
| "bind_param (JNum n) = Inr (Some (decimal n))"
| "bind_param (JStr s) = Inr (Some s)"
| "bind_param (JArr xs) = Inl InterfaceError"
| "bind_param (JObj kvs) = Inl InterfaceError"

definition user_by_email :: "db \<Rightarrow> json \<Rightarrow> exn + user list" where
  "user_by_email d v =
     (case bind_param v of
        Inl e \<Rightarrow> Inl e
      | Inr t \<Rightarrow> Inr (filter (\<lambda>u. email u = t) (users d)))"

text \<open>\<open>db.session.commit()\<close>. The verdict of the store on the transaction is an
  input: \<open>fault\<close> is the exception it raises, if any (a constraint it enforces, a lost
  connection). When a handler ends on an exception the session is discarded with the
  request and the store keeps its old state.\<close>

definition commit :: "exn option \<Rightarrow> db \<Rightarrow> exn + db" where
  "commit fault d' = (case fault of Some e \<Rightarrow> Inl e | None \<Rightarrow> Inr d')"

section \<open>Tokens\<close>

text \<open>\<open>datetime.utcnow()\<close> is read as microseconds since the epoch; PyJWT writes a
  \<open>datetime\<close> entry as whole seconds (\<open>timegm\<close> of its time tuple).\<close>

definition minutes :: "int \<Rightarrow> int" where
  "minutes m = m * 60 * 1000000"

definition timegm :: "int \<Rightarrow> int" where
  "timegm t = t div 1000000"

definition jwt_encode :: "int \<Rightarrow> int \<Rightarrow> int \<Rightarrow> string \<Rightarrow> int \<Rightarrow> string \<Rightarrow> jwt" where
  "jwt_encode exp_dt iat_dt subject key hdr_uid algorithm =
     \<lparr>header_user_id = hdr_uid, header_alg = algorithm,
      claims = \<lparr>exp = timegm exp_dt, iat = timegm iat_dt, sub = subject\<rparr>,
      signed_with = key\<rparr>"


section \<open>Authentication routes\<close>

text \<open>
  \<open>login\<close> (routes.py, lines 251 to 297). \<open>auth\<close> is the parsed body,
  \<open>secret_key\<close> is \<open>app.config['SECRET_KEY']\<close>. \<open>check_password\<close> is the method
  of \<open>User\<close> (models.py, not among the sources); it is given as the boolean it
  returns, or the exception it raises, which nothing in \<open>login\<close> catches. The
  payload reads the clock twice: \<open>now_exp\<close> is the reading in the \<open>exp\<close> entry,
  \<open>now_iat\<close> the later one in the \<open>iat\<close> entry. The log line is left out.
\<close>

definition missing_credentials :: reply where
  "missing_credentials = Reply 401 (message ''Missing email or password'')"

definition issue_token :: "string \<Rightarrow> user \<Rightarrow> int \<Rightarrow> int \<Rightarrow> jwt" where
  "issue_token secret_key u now_exp now_iat =
     jwt_encode (now_exp + minutes 5) now_iat (user_id u) secret_key (user_id u) ''HS256''"

text \<open>\<open>verify_user\<close> is the part of \<open>login\<close> after the lookup (lines 275 to
  297).\<close>

definition verify_user ::
  "(user \<Rightarrow> json \<Rightarrow> exn + bool) \<Rightarrow> string \<Rightarrow> user \<Rightarrow> json \<Rightarrow> int \<Rightarrow> int \<Rightarrow> reply" where
  "verify_user check_password secret_key u pw now_exp now_iat =
     (case check_password u pw of
        Inl e \<Rightarrow> Raised e
      | Inr matches \<Rightarrow>
          if matches then Reply 201 (TokenJson (issue_token secret_key u now_exp now_iat))
          else Reply 403 (message ''Incorrect password.''))"

definition login ::
  "(user \<Rightarrow> json \<Rightarrow> exn + bool) \<Rightarrow> string \<Rightarrow> db \<Rightarrow> json \<Rightarrow> int \<Rightarrow> int \<Rightarrow> reply" where
  "login check_password secret_key d auth now_exp now_iat =
     (if \<not> truthy auth then missing_credentials
      else (case dict_get auth ''email'' of
        Inl e \<Rightarrow> Raised e
      | Inr em \<Rightarrow>
          if \<not> truthy em then missing_credentials
          else (case dict_get auth ''password'' of
            Inl e \<Rightarrow> Raised e
          | Inr pw \<Rightarrow>
              if \<not> truthy pw then missing_credentials
              else (case user_by_email d em of
                Inl e \<Rightarrow> Raised e
              | Inr rows \<Rightarrow>
                  (case scalar_one_or_none rows of
                     Inl e \<Rightarrow> Raised e
                   | Inr None \<Rightarrow>
                       Reply 401 (message ''No account for that email address. Please register.'')
                   | Inr (Some u) \<Rightarrow>
                       verify_user check_password secret_key u pw now_exp now_iat)))))"

text \<open>Modelled from the spec: the numeric identifier of a \<open>User\<close> is "unique,
  assigned at creation" (the column is declared in models.py); the store assigns the
  successor of the largest identifier in the table.\<close>

definition next_user_id :: "db \<Rightarrow> int" where
  "next_user_id d = fold max (map user_id (users d)) 0 + 1"

text \<open>
  \<open>register\<close> (routes.py, lines 300 to 339). \<open>set_password\<close> is the method of
  \<open>User\<close> (models.py, not among the sources) that hashes the password; it is given
  as the hash it stores, or the exception it raises. The statements of the \<open>try\<close>
  block are \<open>create_user\<close>; \<open>except Exception\<close> catches whatever they raise.
  The lookup stands before the \<open>try\<close>: what it raises leaves the handler.
  The log line is left out.
\<close>

definition create_user :: "(json \<Rightarrow> exn + string) \<Rightarrow> db \<Rightarrow> json \<Rightarrow> exn option \<Rightarrow> exn + db" where
  "create_user set_password d post_data fault =
     (case dict_get post_data ''email'' of
        Inl e \<Rightarrow> Inl e
      | Inr em \<Rightarrow>
          (case dict_get post_data ''password'' of
             Inl e \<Rightarrow> Inl e
           | Inr pw \<Rightarrow>
               (case set_password pw of
                  Inl e \<Rightarrow> Inl e
                | Inr h \<Rightarrow>
                    (case bind_param em of
                       Inl e \<Rightarrow> Inl e
                     | Inr t \<Rightarrow>
                         commit fault
                           (d\<lparr>users := users d @
                               [\<lparr>user_id = next_user_id d, email = t, password_hash = h\<rparr>]\<rparr>)))))"

definition register :: "(json \<Rightarrow> exn + string) \<Rightarrow> db \<Rightarrow> json \<Rightarrow> exn option \<Rightarrow> reply \<times> db" where
  "register set_password d post_data fault =
     (case dict_get post_data ''email'' of
        Inl e \<Rightarrow> (Raised e, d)
      | Inr em \<Rightarrow>
          (case user_by_email d em of
             Inl e \<Rightarrow> (Raised e, d)
           | Inr rows \<Rightarrow>
               (case scalar_one_or_none rows of
                  Inl e \<Rightarrow> (Raised e, d)
                | Inr (Some u) \<Rightarrow>
                    (Reply 409 (message ''User already exists. Please Log in.''), d)
                | Inr None \<Rightarrow>
                    (case create_user set_password d post_data fault of
                       Inl e \<Rightarrow>
                         (Reply 500 (message ''An error occurred. Please try again.''), d)
                     | Inr d' \<Rightarrow> (Reply 201 (message ''Successfully registered.''), d')))))"

text \<open>Modelled from the spec: the check of a token by the guard \<open>token_required\<close>
  (paralympics/decorators.py, not among the sources). The spec, sections 3 and 4.5:
  verify the signature against the server secret and check the expiry; a token is valid
  when its signature is intact and the current time is before its expiry. The time is
  in microseconds, the expiry in whole seconds. The \<open>Authorization\<close> value is the
  serialisation of a token (\<open>Compact\<close>) or some other text, which does not decode.\<close>

datatype header = Compact jwt | Other string

datatype jwt_error = DecodeError | InvalidSignatureError | ExpiredSignatureError

definition jwt_decode :: "header \<Rightarrow> string \<Rightarrow> int \<Rightarrow> jwt_error + jwt_claims" where
  "jwt_decode tok key now =
     (case tok of
        Compact t \<Rightarrow>
          if signed_with t \<noteq> key then Inl InvalidSignatureError
          else if exp (claims t) * 1000000 \<le> now then Inl ExpiredSignatureError
          else Inr (claims t)
      | Other s \<Rightarrow> Inl DecodeError)"

text \<open>Modelled from the spec: \<open>token_required\<close> (paralympics/decorators.py) is
  not among the sources. The spec, section 4.5: inspect the \<open>Authorization\<close> value;
  if absent, reject 401 ("authentication token missing"); if present and invalid or
  expired, reject 401; otherwise run the handler. The store is not consulted. The spec
  fixes no message for the second rejection.\<close>

definition token_required ::
  "string \<Rightarrow> int \<Rightarrow> header option \<Rightarrow> (db \<Rightarrow> reply \<times> db) \<Rightarrow> db \<Rightarrow> reply \<times> db" where
  "token_required secret_key now authorization view d =
     (case authorization of
        None \<Rightarrow> (Reply 401 (message ''Authentication token missing''), d)
      | Some tok \<Rightarrow>
          (case jwt_decode tok secret_key now of
             Inl e \<Rightarrow> (Reply 401 (message ''Invalid or expired token''), d)
           | Inr c \<Rightarrow> view d))"

text \<open>Modelled from the spec: validity of a token in the words of section 3,
  "signature intact AND current time < expiry".\<close>

definition valid_token :: "header \<Rightarrow> string \<Rightarrow> int \<Rightarrow> bool" where
  "valid_token tok key now =
     (case tok of
        Compact t \<Rightarrow> signed_with t = key \<and> now < exp (claims t) * 1000000
      | Other s \<Rightarrow> False)"

section \<open>Region routes\<close>

text \<open>
  \<open>region_schema\<close> is declared in paralympics/schemas.py, which is not among the
  sources; it enters as its declared fields, each with its validator. \<open>add_region\<close>
  reads \<open>region.NOC\<close> from what the same schema loads, so \<open>NOC\<close> is one of the
  fields a body may carry. \<open>load(..., partial=True)\<close> accepts a dict whose members
  are all declared fields with valid values (no field is required); anything else is a
  \<open>ValidationError\<close>.
\<close>

type_synonym schema = "(string \<times> (json \<Rightarrow> bool)) list"

definition field_ok :: "schema \<Rightarrow> (string \<times> json) list \<Rightarrow> string \<Rightarrow> bool" where
  "field_ok sc kvs k =
     (case map_of sc k of
        None \<Rightarrow> False
      | Some ok \<Rightarrow> (case map_of (rev kvs) k of None \<Rightarrow> False | Some v \<Rightarrow> ok v))"

definition schema_validate :: "schema \<Rightarrow> json \<Rightarrow> exn + (string \<times> json) list" where
  "schema_validate sc j =
     (case j of
        JObj kvs \<Rightarrow> if list_all (field_ok sc kvs) (map fst kvs) then Inr kvs else Inl ValidationError
      | _ \<Rightarrow> Inl ValidationError)"

text \<open>\<open>for key, value in data.items(): setattr(instance, key, value)\<close>, in the order
  of the members; a later member of the same name overwrites the earlier one.\<close>

definition setattrs :: "row \<Rightarrow> (string \<times> json) list \<Rightarrow> row" where
  "setattrs r data = fold (\<lambda>(k, v). AList.update k v) data r"

text \<open>
  With \<open>load_instance\<close> the schema returns an instance: the one passed as
  \<open>instance\<close>; failing that the stored one with the primary key found in the data
  (\<open>get_instance\<close>); failing that a new one built from the data alone. \<open>pending\<close>
  is what the session then holds: the changed instance with the key it was read under,
  or the new instance.
\<close>

datatype pending = Modify json row | Create row

definition get_instance :: "string \<Rightarrow> row list \<Rightarrow> (string \<times> json) list \<Rightarrow> row option" where
  "get_instance pk tbl data =
     (case map_of (rev data) pk of
        None \<Rightarrow> None
      | Some v \<Rightarrow>
          if v = JNull then None
          else (case filter (\<lambda>r. col r pk = v) tbl of [] \<Rightarrow> None | r # rs \<Rightarrow> Some r))"

definition schema_load ::
  "string \<Rightarrow> schema \<Rightarrow> row list \<Rightarrow> json \<Rightarrow> row option \<Rightarrow> exn + pending" where
  "schema_load pk sc tbl j instance =
     (case schema_validate sc j of
        Inl e \<Rightarrow> Inl e
      | Inr data \<Rightarrow>
          (case (case instance of Some r \<Rightarrow> Some r | None \<Rightarrow> get_instance pk tbl data) of
             Some r \<Rightarrow> Inr (Modify (col r pk) (setattrs r data))
           | None \<Rightarrow> Inr (Create (setattrs [] data))))"

text \<open>The statements a flush sends: \<open>UPDATE ... WHERE pk = key\<close> for a changed
  instance, \<open>INSERT\<close> for a new one, \<open>DELETE ... WHERE pk = key\<close>.\<close>

fun flush :: "string \<Rightarrow> row list \<Rightarrow> pending \<Rightarrow> row list" where
  "flush pk tbl (Modify key r') = map (\<lambda>r. if col r pk = key then r' else r) tbl"
| "flush pk tbl (Create r') = tbl @ [r']"

definition delete_row :: "string \<Rightarrow> row list \<Rightarrow> row \<Rightarrow> row list" where
  "delete_row pk tbl r = filter (\<lambda>x. col x pk \<noteq> col r pk) tbl"

text \<open>\<open>schema.dump(instance)\<close>: the declared fields of the instance.\<close>

definition dump :: "schema \<Rightarrow> row \<Rightarrow> json" where
  "dump sc r = JObj (map (\<lambda>f. (f, col r f)) (map fst sc))"

text \<open>\<open>get_region\<close> (routes.py, lines 46 to 69).\<close>

definition get_region :: "schema \<Rightarrow> db \<Rightarrow> string \<Rightarrow> reply" where
  "get_region sc d code =
     (case scalar_one (region_by_noc d code) of
        Inr region \<Rightarrow> Reply 200 (Json (dump sc region))
      | Inl e \<Rightarrow> if e = NoResultFound then Reply 404 (Text ''Region not found'') else Raised e)"

text \<open>\<open>delete_region\<close> (routes.py, lines 101 to 121).\<close>

definition delete_region :: "db \<Rightarrow> string \<Rightarrow> exn option \<Rightarrow> reply \<times> db" where
  "delete_region d noc_code fault =
     (case (case scalar_one (region_by_noc d noc_code) of
              Inl e \<Rightarrow> Inl e
            | Inr region \<Rightarrow> commit fault (d\<lparr>regions := delete_row ''NOC'' (regions d) region\<rparr>)) of
        Inr d' \<Rightarrow> (Reply 200 (message (''Region '' @ noc_code @ '' deleted.'')), d')
      | Inl e \<Rightarrow>
          if is_sqlalchemy_error e
          then (Reply 500 (message (''Region '' @ noc_code @ '' not found'')), d)
          else (Raised e, d))"

text \<open>\<open>update_region\<close> (routes.py, lines 126 to 165), the function under the
  decorator. \<open>merge_region\<close> is its part after the lookup.\<close>

definition merge_region :: "schema \<Rightarrow> db \<Rightarrow> string \<Rightarrow> json \<Rightarrow> exn option \<Rightarrow> row option \<Rightarrow> reply \<times> db" where
  "merge_region sc d noc_code region_json fault existing_region =
     (case schema_load ''NOC'' sc (regions d) region_json existing_region of
        Inl e \<Rightarrow>
          if e = ValidationError
          then (Reply 500 (Text ''Failed Marshmallow schema validation''), d)
          else (Raised e, d)
      | Inr region_update \<Rightarrow>
          (case commit fault (d\<lparr>regions := flush ''NOC'' (regions d) region_update\<rparr>) of
             Inr d' \<Rightarrow> (Reply 200 (message (''Region '' @ noc_code @ '' updated.'')), d')
           | Inl e \<Rightarrow>
               if is_sqlalchemy_error e
               then (Reply 500 (Text ''An Internal Server Error occurred.''), d)
               else (Raised e, d)))"

definition update_region :: "schema \<Rightarrow> db \<Rightarrow> string \<Rightarrow> json \<Rightarrow> exn option \<Rightarrow> reply \<times> db" where
  "update_region sc d noc_code region_json fault =
     (case scalar_one_or_none (region_by_noc d noc_code) of
        Inl e \<Rightarrow>
          if is_sqlalchemy_error e
          then (Reply 404 (message (''Region '' @ noc_code @ '' not found'')), d)
          else (Raised e, d)
      | Inr existing_region \<Rightarrow> merge_region sc d noc_code region_json fault existing_region)"

text \<open>The route \<open>PATCH /regions/<noc_code>\<close>: \<open>update_region\<close> under
  \<open>token_required\<close>.\<close>

definition patch_region ::
  "string \<Rightarrow> int \<Rightarrow> header option \<Rightarrow> schema \<Rightarrow> db \<Rightarrow> string \<Rightarrow> json \<Rightarrow> exn option \<Rightarrow> reply \<times> db" where
  "patch_region secret_key now authorization sc d noc_code region_json fault =
     token_required secret_key now authorization
       (\<lambda>d. update_region sc d noc_code region_json fault) d"

section \<open>Event routes\<close>

text \<open>
  \<open>Event\<close> is declared in paralympics/models.py, which is not among the sources:
  its mapped attributes are the parameter \<open>event_attrs\<close>.
\<close>

text \<open>\<open>delete_event\<close> (routes.py, lines 212 to 224); the route converts the
  identifier to an integer.\<close>

definition delete_event :: "string list \<Rightarrow> db \<Rightarrow> int \<Rightarrow> exn option \<Rightarrow> reply \<times> db" where
  "delete_event event_attrs d event_id fault =
     (case filter_by event_attrs ''id'' (JNum event_id) (events d) of
        Inl e \<Rightarrow> (Raised e, d)
      | Inr rows \<Rightarrow>
          (case scalar_one rows of
             Inl e \<Rightarrow> (Raised e, d)
           | Inr event \<Rightarrow>
               (case commit fault (d\<lparr>events := delete_row ''id'' (events d) event\<rparr>) of
                  Inl e \<Rightarrow> (Raised e, d)
                | Inr d' \<Rightarrow> (Reply 200 (message (''Event '' @ decimal event_id @ '' deleted.'')), d'))))"

text \<open>\<open>event_update\<close> (routes.py, lines 227 to 247); the identifier is the text of
  the path.\<close>

definition event_update ::
  "string list \<Rightarrow> schema \<Rightarrow> db \<Rightarrow> string \<Rightarrow> json \<Rightarrow> exn option \<Rightarrow> reply \<times> db" where
  "event_update event_attrs sc d event_id event_json fault =
     (case filter_by event_attrs ''event_id'' (JStr event_id) (events d) of
        Inl e \<Rightarrow> (Raised e, d)
      | Inr rows \<Rightarrow>
          (case scalar_one_or_none rows of
             Inl e \<Rightarrow> (Raised e, d)
           | Inr existing_event \<Rightarrow>
               (case schema_load ''id'' sc (events d) event_json existing_event of
                  Inl e \<Rightarrow> (Raised e, d)
                | Inr upd \<Rightarrow>
                    (case commit fault (d\<lparr>events := flush ''id'' (events d) upd\<rparr>) of
                       Inl e \<Rightarrow> (Raised e, d)
                     | Inr d' \<Rightarrow>
                         (Reply 200 (message (''Event with id='' @ event_id @ '' updated.'')), d')))))"

section \<open>A small store\<close>

text \<open>One registered user, one region and one event, a password check that compares a
  string with the stored text and raises on anything else, and a region schema of three
  text fields. The closed statements below are evaluated on them.\<close>

definition sample_user :: user where
  "sample_user = \<lparr>user_id = 1, email = Some ''a@b.c'', password_hash = ''secret''\<rparr>"

definition sample_check :: "user \<Rightarrow> json \<Rightarrow> exn + bool" where
  "sample_check u p = (case p of JStr s \<Rightarrow> Inr (s = password_hash u) | _ \<Rightarrow> Inl AttributeError)"

definition sample_region :: row where
  "sample_region = [(''NOC'', JStr ''NEW''), (''region'', JStr ''A new region''), (''notes'', JNull)]"

definition sample_event :: row where
  "sample_event = [(''id'', JNum 1), (''type'', JStr ''summer'')]"

definition sample_db :: db where
  "sample_db = \<lparr>regions = [sample_region], events = [sample_event], users = [sample_user]\<rparr>"

definition is_text :: "json \<Rightarrow> bool" where
  "is_text j = (case j of JStr s \<Rightarrow> True | _ \<Rightarrow> False)"

definition sample_schema :: schema where
  "sample_schema = [(''NOC'', is_text), (''region'', is_text), (''notes'', \<lambda>j. j = JNull \<or> is_text j)]"

definition credentials :: "string \<Rightarrow> string \<Rightarrow> json" where
  "credentials e p = JObj [(''email'', JStr e), (''password'', JStr p)]"

definition sample_token :: header where
  "sample_token = Compact (issue_token ''k'' sample_user 0 0)"

definition note_update :: json where
  "note_update = JObj [(''notes'', JStr ''An updated note'')]"


definition sample_event_attrs :: "string list" where
  "sample_event_attrs = [''id'', ''type'']"

section \<open>Lookups\<close>

lemma filter_unique:
  "distinct (map f xs) \<Longrightarrow> x \<in> set xs \<Longrightarrow> filter (\<lambda>y. f y = f x) xs = [x]"
proof (induction xs)
  case Nil
  then show ?case by simp
next
  case (Cons a xs)
  show ?case
  proof (cases "a = x")
    case True
    with Cons.prems have "f x \<notin> f ` set xs" by auto
    then have "filter (\<lambda>y. f y = f x) xs = []"
      unfolding filter_empty_conv by (metis imageI)
    with True show ?thesis by simp
  next
    case False
    with Cons.prems have "x \<in> set xs" "f a \<noteq> f x" by auto
    with Cons show ?thesis by simp
  qed
qed

lemma user_by_email_found:
  assumes "bind_param v = Inr t" and "distinct (map email (users d))"
    and "u \<in> set (users d)" and "email u = t"
  shows "user_by_email d v = Inr [u]"
  using assms filter_unique [of email "users d" u] by (simp add: user_by_email_def)


lemma user_by_email_unbindable: "bind_param v = Inl e \<Longrightarrow> user_by_email d v = Inl e"
  by (simp add: user_by_email_def)

lemma truthy_member_nonempty: "truthy (member kvs k) \<Longrightarrow> kvs \<noteq> []"
  by (auto simp: member_def)




section \<open>Login\<close>



lemma login_account:
  assumes "truthy (member kvs ''email'')" and "truthy (member kvs ''password'')"
    and "user_by_email d (member kvs ''email'') = Inr [u]"
  shows "login chk key d (JObj kvs) t1 t2 = verify_user chk key u (member kvs ''password'') t1 t2"
  using assms truthy_member_nonempty [OF assms(1)] by (simp add: login_def)

text \<open>The inputs on which an exception leaves \<open>login\<close>: a body that is true in
  Python's sense and not a dict, an email that cannot be bound, a password check that
  raises.\<close>

lemma login_body_not_a_dict:
  "truthy auth \<Longrightarrow> \<forall>kvs. auth \<noteq> JObj kvs \<Longrightarrow>
   login chk key d auth t1 t2 = Raised AttributeError"
  by (cases auth) (simp_all add: login_def)


lemma login_check_raises:
  assumes "truthy (member kvs ''email'')" and "truthy (member kvs ''password'')"
    and "user_by_email d (member kvs ''email'') = Inr [u]"
    and "chk u (member kvs ''password'') = Inl e"
  shows "login chk key d (JObj kvs) t1 t2 = Raised e"
  using login_account [OF assms(1-3)] assms(4) by (simp add: verify_user_def)




section \<open>Attribute updates, the schema and tokens\<close>

lemma map_of_setattrs:
  "map_of (setattrs r kvs) k = (case map_of (rev kvs) k of Some v \<Rightarrow> Some v | None \<Rightarrow> map_of r k)"
  unfolding setattrs_def
proof (induction kvs arbitrary: r)
  case Nil
  then show ?case by simp
next
  case (Cons p kvs)
  obtain a b where p: "p = (a, b)" by (cases p)
  show ?case
    by (simp add: p Cons.IH update_conv' map_add_def split: option.splits)
qed

lemma col_setattrs:
  "col (setattrs r kvs) k = (if k \<in> fst ` set kvs then member kvs k else col r k)"
proof (cases "map_of (rev kvs) k")
  case None
  then have "k \<notin> fst ` set kvs" by (simp add: map_of_eq_None_iff)
  with None show ?thesis by (simp add: col_def map_of_setattrs)
next
  case (Some v)
  then have "k \<in> fst ` set kvs"
    by (metis map_of_eq_None_iff option.distinct(1) set_rev)
  with Some show ?thesis by (simp add: col_def member_def map_of_setattrs)
qed

lemma filter_map_replace:
  "P r' \<Longrightarrow> filter P (map (\<lambda>x. if P x then r' else x) xs) = map (\<lambda>x. r') (filter P xs)"
  by (induction xs) auto

lemma member_dump:
  "k \<in> fst ` set sc \<Longrightarrow> dict_get (dump sc r) k = Inr (col r k)"
proof -
  assume k: "k \<in> fst ` set sc"
  have "map_of (rev (map (\<lambda>f. (f, col r f)) fs)) k = (if k \<in> set fs then Some (col r k) else None)" for fs
    by (induction fs) (auto simp: map_add_def split: option.splits)
  from this [of "map fst sc"] k show ?thesis
    by (simp add: dump_def member_def del: map_map)
qed

lemma schema_validate_fields:
  assumes "schema_validate sc j = Inr kvs"
  shows "j = JObj kvs \<and> fst ` set kvs \<subseteq> fst ` set sc"
proof -
  from assms have j: "j = JObj kvs" and ok: "list_all (field_ok sc kvs) (map fst kvs)"
    by (cases j; simp add: schema_validate_def split: if_splits)+
  have "k \<in> fst ` set sc" if "k \<in> fst ` set kvs" for k
  proof -
    from ok that have "field_ok sc kvs k" by (auto simp: list_all_iff)
    then obtain ok where "map_of sc k = Some ok"
      by (auto simp: field_ok_def split: option.splits)
    then show ?thesis by (metis map_of_eq_None_iff option.distinct(1))
  qed
  with j show ?thesis by blast
qed

lemma scalar_one_Inr: "scalar_one xs = Inr x \<Longrightarrow> xs = [x]"
  by (cases xs rule: scalar_one.cases) auto

lemma jwt_decode_valid:
  "valid_token tok key now \<Longrightarrow> \<exists>c. jwt_decode tok key now = Inr c"
  by (cases tok) (auto simp: jwt_decode_def valid_token_def)

lemma jwt_decode_invalid:
  "\<not> valid_token tok key now \<Longrightarrow> \<exists>e. jwt_decode tok key now = Inl e"
  by (cases tok) (auto simp: jwt_decode_def valid_token_def)

lemma token_required_valid:
  "valid_token tok key now \<Longrightarrow> token_required key now (Some tok) view d = view d"
  using jwt_decode_valid [of tok key now] by (auto simp: token_required_def)

lemma token_required_invalid:
  "\<not> valid_token tok key now \<Longrightarrow>
   token_required key now (Some tok) view d = (Reply 401 (message ''Invalid or expired token''), d)"
  using jwt_decode_invalid [of tok key now] by (auto simp: token_required_def)

section \<open>Tokens issued by login\<close>

text \<open>
  What an issued token carries: the subject and the header entry are the identifier of
  the user, the signature is made with the secret key, the issued-at entry is the
  second reading of the clock and the expiry the first reading plus 300 seconds, both
  in whole seconds. The expiry is never later than issued-at plus 300 seconds, and
  equals it when the two readings fall in the same second. From its expiry on, the
  guard rejects the token.
\<close>

lemma issue_token_claims:
  "sub (claims (issue_token key u t1 t2)) = user_id u \<and>
   header_user_id (issue_token key u t1 t2) = user_id u \<and>
   iat (claims (issue_token key u t1 t2)) = t2 div 1000000 \<and>
   exp (claims (issue_token key u t1 t2)) = t1 div 1000000 + 300 \<and>
   signed_with (issue_token key u t1 t2) = key"
  by (simp add: issue_token_def jwt_encode_def timegm_def minutes_def)

lemma issue_token_same_second:
  "t1 div 1000000 = t2 div 1000000 \<Longrightarrow>
   exp (claims (issue_token key u t1 t2)) = iat (claims (issue_token key u t1 t2)) + 300"
  by (simp add: issue_token_claims)

lemma issue_token_expiry_bound:
  "t1 \<le> t2 \<Longrightarrow>
   exp (claims (issue_token key u t1 t2)) \<le> iat (claims (issue_token key u t1 t2)) + 300"
  by (simp add: issue_token_claims zdiv_mono1)

lemma issued_token_rejected_from_expiry:
  "exp (claims (issue_token key u t1 t2)) * 1000000 \<le> now \<Longrightarrow>
   token_required key' now (Some (Compact (issue_token key u t1 t2))) view d =
     (Reply 401 (message ''Invalid or expired token''), d)"
  by (rule token_required_invalid) (simp add: valid_token_def)

text \<open>
The facts of the small store that the closed statements use.
\<close>

lemma sample_token_valid: "valid_token sample_token ''k'' 1000000"
  by (simp add: sample_token_def valid_token_def issue_token_claims)

lemma sample_token_expired: "\<not> valid_token sample_token ''k'' 300000000"
  by (simp add: sample_token_def valid_token_def issue_token_claims)

lemma sample_region_found: "region_by_noc sample_db ''NEW'' = [sample_region]"
  by (simp add: region_by_noc_def sample_db_def sample_region_def col_def)

lemma sample_region_absent: "region_by_noc sample_db ''ZZZ'' = []"
  by (simp add: region_by_noc_def sample_db_def sample_region_def col_def)

lemma note_update_valid:
  "schema_validate sample_schema note_update = Inr [(''notes'', JStr ''An updated note'')]"
  by (simp add: schema_validate_def note_update_def field_ok_def sample_schema_def is_text_def)

lemma noc_update_valid:
  "schema_validate sample_schema (JObj [(''NOC'', JStr ''XYZ'')]) = Inr [(''NOC'', JStr ''XYZ'')]"
  by (simp add: schema_validate_def field_ok_def sample_schema_def is_text_def)

text \<open>
  C2. The claim asks for an expiry of issued-at plus exactly 5 minutes. \<open>login\<close>
  reads the clock once for \<open>exp\<close> and once more for \<open>iat\<close>; when the two
  readings lie on either side of a full second (here 1700000000.999999 and
  1700000001.000000), the token has \<open>exp = iat + 299\<close>.
\<close>

theorem login_token_across_second_boundary:
  "login sample_check ''k'' sample_db (credentials ''a@b.c'' ''secret'')
     1700000000999999 1700000001000000 =
   Reply 201 (TokenJson
     \<lparr>header_user_id = 1, header_alg = ''HS256'',
      claims = \<lparr>exp = 1700000300, iat = 1700000001, sub = 1\<rparr>,
      signed_with = ''k''\<rparr>)"
  by (simp add: login_def verify_user_def credentials_def member_def user_by_email_def
        sample_db_def sample_user_def sample_check_def issue_token_def jwt_encode_def
        timegm_def minutes_def)

section \<open>The guard of the region update\<close>

text \<open>
  C3. A \<open>PATCH /regions/<code>\<close> without an \<open>Authorization\<close> value, or with
  one that is not a valid token (not a token, signed with another key, or at or past
  its expiry), is answered 401 and leaves the store, so the region of that code too,
  as it was.
\<close>

theorem patch_region_rejected:
  assumes "authorization = None \<or> (\<exists>tok. authorization = Some tok \<and> \<not> valid_token tok key now)"
  shows "status (fst (patch_region key now authorization sc d code body fault)) = 401 \<and>
         snd (patch_region key now authorization sc d code body fault) = d"
proof -
  from assms consider "authorization = None"
    | tok where "authorization = Some tok" "\<not> valid_token tok key now" by blast
  then show ?thesis
  proof cases
    case 1
    then show ?thesis by (simp add: patch_region_def token_required_def)
  next
    case 2
    then show ?thesis by (simp add: patch_region_def token_required_invalid)
  qed
qed

text \<open>
Without the header, and with the token of the sample user 300 seconds after
  its issue.
\<close>

theorem patch_region_rejected_witness:
  "status (fst (patch_region ''k'' 1000000 None sample_schema sample_db ''NEW'' note_update None)) = 401 \<and>
   snd (patch_region ''k'' 1000000 None sample_schema sample_db ''NEW'' note_update None) = sample_db \<and>
   status (fst (patch_region ''k'' 300000000 (Some sample_token) sample_schema sample_db ''NEW''
                  note_update None)) = 401 \<and>
   snd (patch_region ''k'' 300000000 (Some sample_token) sample_schema sample_db ''NEW''
          note_update None) = sample_db"
  using patch_region_rejected [of None "''k''" 1000000 sample_schema sample_db "''NEW''" note_update None]
    patch_region_rejected [of "Some sample_token" "''k''" 300000000 sample_schema sample_db "''NEW''"
      note_update None]
    sample_token_expired
  by simp

section \<open>Updating a region\<close>

lemma region_by_noc_col: "region_by_noc d code = [r] \<Longrightarrow> col r ''NOC'' = JStr code"
proof -
  assume "region_by_noc d code = [r]"
  then have "r \<in> set (filter (\<lambda>r. col r ''NOC'' = JStr code) (regions d))"
    by (simp add: region_by_noc_def)
  then show ?thesis by simp
qed

lemma schema_load_instance:
  "schema_validate sc body = Inr kvs \<Longrightarrow>
   schema_load pk sc tbl body (Some r) = Inr (Modify (col r pk) (setattrs r kvs))"
  by (simp add: schema_load_def)

lemma update_region_found:
  assumes "region_by_noc d code = [r]" and "schema_validate sc body = Inr kvs"
  shows "update_region sc d code body None =
           (Reply 200 (message (''Region '' @ code @ '' updated.'')),
            d\<lparr>regions := map (\<lambda>x. if col x ''NOC'' = JStr code then setattrs r kvs else x) (regions d)\<rparr>)"
  using assms region_by_noc_col [OF assms(1)]
  by (simp add: update_region_def merge_region_def schema_load_instance commit_def)

lemma update_region_found_fault:
  assumes "region_by_noc d code = [r]" and "schema_validate sc body = Inr kvs"
  shows "status (fst (update_region sc d code body (Some e))) \<noteq> 200"
  using assms
  by (simp add: update_region_def merge_region_def schema_load_instance commit_def)

lemma region_by_noc_after_update:
  assumes "region_by_noc d code = [r]" and "col r' ''NOC'' = JStr code"
  shows "region_by_noc
           (d\<lparr>regions := map (\<lambda>x. if col x ''NOC'' = JStr code then r' else x) (regions d)\<rparr>) code = [r']"
  using assms filter_map_replace [of "\<lambda>x. col x ''NOC'' = JStr code" r' "regions d"]
  by (simp add: region_by_noc_def)

lemma merge_region_status:
  "status (fst (merge_region sc d code body fault target)) = 200 \<or>
   status (fst (merge_region sc d code body fault target)) = 500"
  by (auto simp: merge_region_def commit_def split: sum.splits option.splits)

text \<open>
  C4, as amended. A \<open>PATCH /regions/<code>\<close> with a valid token, where the lookup
  finds the region of that code, the body passes the schema and does not name another
  \<open>NOC\<close>, and the store accepts the commit, is answered 200 "Region <code>
  updated."; a \<open>GET /regions/<code>\<close> that follows is answered 200 with the
  region, and every member of the body is a member of that answer with the same value.
\<close>

theorem patch_then_get:
  assumes tok: "valid_token tok key now"
    and found: "region_by_noc d code = [r]"
    and valid: "schema_validate sc body = Inr kvs"
    and noc: "''NOC'' \<notin> fst ` set kvs \<or> member kvs ''NOC'' = JStr code"
  shows "fst (patch_region key now (Some tok) sc d code body None) =
           Reply 200 (message (''Region '' @ code @ '' updated.'')) \<and>
         get_region sc (snd (patch_region key now (Some tok) sc d code body None)) code =
           Reply 200 (Json (dump sc (setattrs r kvs))) \<and>
         (\<forall>k \<in> fst ` set kvs. dict_get (dump sc (setattrs r kvs)) k = Inr (member kvs k))"
proof -
  let ?r' = "setattrs r kvs"
  let ?d' = "d\<lparr>regions := map (\<lambda>x. if col x ''NOC'' = JStr code then ?r' else x) (regions d)\<rparr>"
  have p: "patch_region key now (Some tok) sc d code body None =
             (Reply 200 (message (''Region '' @ code @ '' updated.'')), ?d')"
    using tok update_region_found [OF found valid]
    by (simp add: patch_region_def token_required_valid)
  have "col ?r' ''NOC'' = JStr code"
    using noc region_by_noc_col [OF found] by (auto simp: col_setattrs)
  then have "region_by_noc ?d' code = [?r']"
    by (rule region_by_noc_after_update [OF found])
  then have g: "get_region sc ?d' code = Reply 200 (Json (dump sc ?r'))"
    by (simp add: get_region_def)
  have "dict_get (dump sc ?r') k = Inr (member kvs k)" if "k \<in> fst ` set kvs" for k
  proof -
    from schema_validate_fields [OF valid] that have "k \<in> fst ` set sc" by blast
    then show ?thesis using that by (simp add: member_dump col_setattrs)
  qed
  with p g show ?thesis by simp
qed

text \<open>
The request of the test suite: the note of region NEW.
\<close>

theorem patch_then_get_witness:
  "fst (patch_region ''k'' 1000000 (Some sample_token) sample_schema sample_db ''NEW'' note_update None) =
     Reply 200 (message ''Region NEW updated.'') \<and>
   get_region sample_schema
     (snd (patch_region ''k'' 1000000 (Some sample_token) sample_schema sample_db ''NEW'' note_update None))
     ''NEW'' =
     Reply 200 (Json (JObj [(''NOC'', JStr ''NEW''), (''region'', JStr ''A new region''),
                            (''notes'', JStr ''An updated note'')]))"
  using patch_then_get [OF sample_token_valid sample_region_found note_update_valid]
  by (simp add: dump_def setattrs_def col_def sample_region_def sample_schema_def)

text \<open>
  C4 as it is written fails when the body names another \<open>NOC\<close> (a field of the
  schema: \<open>add_region\<close> loads it with the same schema): the update is answered
  200, and the \<open>GET\<close> of the same code that follows is answered 404.
\<close>

theorem patch_noc_counterexample:
  "valid_token sample_token ''k'' 1000000 \<and>
   region_by_noc sample_db ''NEW'' = [sample_region] \<and>
   schema_validate sample_schema (JObj [(''NOC'', JStr ''XYZ'')]) = Inr [(''NOC'', JStr ''XYZ'')] \<and>
   fst (patch_region ''k'' 1000000 (Some sample_token) sample_schema sample_db ''NEW''
          (JObj [(''NOC'', JStr ''XYZ'')]) None) = Reply 200 (message ''Region NEW updated.'') \<and>
   get_region sample_schema
     (snd (patch_region ''k'' 1000000 (Some sample_token) sample_schema sample_db ''NEW''
          (JObj [(''NOC'', JStr ''XYZ'')]) None)) ''NEW'' = Reply 404 (Text ''Region not found'')"
proof -
  have "patch_region ''k'' 1000000 (Some sample_token) sample_schema sample_db ''NEW''
          (JObj [(''NOC'', JStr ''XYZ'')]) None =
        (Reply 200 (message ''Region NEW updated.''),
         sample_db\<lparr>regions := [[(''NOC'', JStr ''XYZ''), (''region'', JStr ''A new region''),
                                 (''notes'', JNull)]]\<rparr>)"
    using update_region_found [OF sample_region_found noc_update_valid]
    by (simp add: patch_region_def token_required_valid [OF sample_token_valid]
          setattrs_def sample_db_def sample_region_def col_def)
  then show ?thesis
    using sample_token_valid sample_region_found noc_update_valid
    by (simp add: get_region_def region_by_noc_def col_def)
qed

text \<open>
  C7. After a successful \<open>PATCH /regions/<code>\<close> (valid token, the region
  found, the body valid, the answer 200) the store differs from the old one in that
  region only; each attribute named in the body has the value the body gives, every
  other attribute has its previous value.
\<close>

theorem patch_changes_named_fields_only:
  assumes tok: "valid_token tok key now"
    and found: "region_by_noc d code = [r]"
    and valid: "schema_validate sc body = Inr kvs"
    and ok: "status (fst (patch_region key now (Some tok) sc d code body fault)) = 200"
  shows "snd (patch_region key now (Some tok) sc d code body fault) =
           d\<lparr>regions := map (\<lambda>x. if col x ''NOC'' = JStr code then setattrs r kvs else x) (regions d)\<rparr> \<and>
         (\<forall>k. col (setattrs r kvs) k = (if k \<in> fst ` set kvs then member kvs k else col r k))"
proof -
  have "fault = None"
  proof (cases fault)
    case None
    then show ?thesis .
  next
    case (Some e)
    with ok tok update_region_found_fault [OF found valid, of e] show ?thesis
      by (simp add: patch_region_def token_required_valid)
  qed
  then show ?thesis
    using tok update_region_found [OF found valid]
    by (simp add: patch_region_def token_required_valid col_setattrs)
qed

theorem patch_changes_named_fields_only_witness:
  "snd (patch_region ''k'' 1000000 (Some sample_token) sample_schema sample_db ''NEW'' note_update None) =
     sample_db\<lparr>regions := [[(''NOC'', JStr ''NEW''), (''region'', JStr ''A new region''),
                             (''notes'', JStr ''An updated note'')]]\<rparr> \<and>
   col (setattrs sample_region [(''notes'', JStr ''An updated note'')]) ''notes'' =
     JStr ''An updated note'' \<and>
   col (setattrs sample_region [(''notes'', JStr ''An updated note'')]) ''region'' =
     col sample_region ''region''"
proof -
  have ok: "status (fst (patch_region ''k'' 1000000 (Some sample_token) sample_schema sample_db
              ''NEW'' note_update None)) = 200"
    using update_region_found [OF sample_region_found note_update_valid]
    by (simp add: patch_region_def token_required_valid [OF sample_token_valid])
  show ?thesis
    using patch_changes_named_fields_only
      [OF sample_token_valid sample_region_found note_update_valid ok]
    by (simp add: setattrs_def sample_db_def sample_region_def col_def member_def)
qed

text \<open>
  C6. With a valid token and no region of that code, the handler does not answer 404:
  the lookup returns \<open>None\<close> without an exception, and the handler goes on to the
  merge with no target.
\<close>

theorem patch_missing_region_no_not_found:
  assumes tok: "valid_token tok key now" and absent: "region_by_noc d code = []"
  shows "patch_region key now (Some tok) sc d code body fault =
           merge_region sc d code body fault None \<and>
         status (fst (patch_region key now (Some tok) sc d code body fault)) \<noteq> 404"
proof -
  have "patch_region key now (Some tok) sc d code body fault =
           merge_region sc d code body fault None"
    using tok absent by (simp add: patch_region_def token_required_valid update_region_def)
  then show ?thesis using merge_region_status [of sc d code body fault None] by auto
qed

text \<open>
A note for the absent region ZZZ, the store refusing the new row: the answer
  is 500.
\<close>

theorem patch_missing_region_no_not_found_witness:
  "patch_region ''k'' 1000000 (Some sample_token) sample_schema sample_db ''ZZZ'' note_update
     (Some IntegrityError) =
     (Reply 500 (Text ''An Internal Server Error occurred.''), sample_db) \<and>
   status (fst (patch_region ''k'' 1000000 (Some sample_token) sample_schema sample_db ''ZZZ''
     note_update (Some IntegrityError))) \<noteq> 404"
  using patch_missing_region_no_not_found [OF sample_token_valid sample_region_absent,
      of sample_schema note_update "Some IntegrityError"]
  by (simp add: merge_region_def schema_load_def note_update_valid get_instance_def commit_def)

section \<open>Deleting a region\<close>

lemma region_by_noc_after_delete:
  "col r ''NOC'' = JStr code \<Longrightarrow>
   region_by_noc (d\<lparr>regions := delete_row ''NOC'' (regions d) r\<rparr>) code = []"
  by (simp add: region_by_noc_def delete_row_def filter_empty_conv)

lemma delete_region_success:
  assumes "fst (delete_region d code fault) = Reply 200 b"
  shows "\<exists>r. region_by_noc d code = [r] \<and>
             snd (delete_region d code fault) = d\<lparr>regions := delete_row ''NOC'' (regions d) r\<rparr>"
proof (cases "scalar_one (region_by_noc d code)")
  case (Inl e)
  with assms show ?thesis by (simp add: delete_region_def split: if_splits)
next
  case (Inr r)
  then have one: "region_by_noc d code = [r]" by (rule scalar_one_Inr)
  show ?thesis
  proof (cases fault)
    case None
    with Inr one show ?thesis by (simp add: delete_region_def commit_def)
  next
    case (Some e)
    with Inr assms show ?thesis by (simp add: delete_region_def commit_def split: if_splits)
  qed
qed

text \<open>
  C8. After a \<open>DELETE /regions/<code>\<close> that returns the success message, a
  \<open>GET /regions/<code>\<close> of the same code is answered 404.
\<close>

theorem delete_then_get_not_found:
  assumes "fst (delete_region d code fault) =
             Reply 200 (message (''Region '' @ code @ '' deleted.''))"
  shows "get_region sc (snd (delete_region d code fault)) code =
           Reply 404 (Text ''Region not found'')"
proof -
  from delete_region_success [OF assms] obtain r where
    r: "region_by_noc d code = [r]"
    and d': "snd (delete_region d code fault) = d\<lparr>regions := delete_row ''NOC'' (regions d) r\<rparr>"
    by blast
  from r have "col r ''NOC'' = JStr code" by (rule region_by_noc_col)
  then have "region_by_noc (snd (delete_region d code fault)) code = []"
    unfolding d' by (rule region_by_noc_after_delete)
  then show ?thesis by (simp add: get_region_def)
qed

theorem delete_then_get_not_found_witness:
  "fst (delete_region sample_db ''NEW'' None) = Reply 200 (message ''Region NEW deleted.'') \<and>
   get_region sample_schema (snd (delete_region sample_db ''NEW'' None)) ''NEW'' =
     Reply 404 (Text ''Region not found'')"
proof -
  have ok: "fst (delete_region sample_db ''NEW'' None) =
      Reply 200 (message (''Region '' @ ''NEW'' @ '' deleted.''))"
    by (simp add: delete_region_def sample_region_found commit_def)
  from delete_then_get_not_found [OF ok, of sample_schema] ok show ?thesis by simp
qed

section \<open>What login reveals\<close>




section \<open>Registration\<close>



text \<open>The inputs on which an exception leaves \<open>register\<close>, before the \<open>try\<close>: a
  body that is not a dict, an email that cannot be bound.\<close>

lemma register_body_not_a_dict:
  "\<forall>kvs. post_data \<noteq> JObj kvs \<Longrightarrow>
   register sp d post_data fault = (Raised AttributeError, d)"
  by (cases post_data) (simp_all add: register_def)

lemma register_unbindable_email:
  "bind_param (member kvs ''email'') = Inl e \<Longrightarrow>
   register sp d (JObj kvs) fault = (Raised e, d)"
  by (simp add: register_def user_by_email_unbindable)




text \<open>Registration keeps the emails distinct, and registering the same body again
  after a success is answered 409.\<close>

lemma scalar_one_or_none_None: "scalar_one_or_none xs = Inr None \<Longrightarrow> xs = []"
  by (cases xs rule: scalar_one_or_none.cases) auto

lemma register_created:
  assumes "fst (register sp d body fault) = Reply 201 b"
  shows "\<exists>em t h. dict_get body ''email'' = Inr em \<and> bind_param em = Inr t \<and>
           t \<notin> email ` set (users d) \<and>
           users (snd (register sp d body fault)) =
             users d @ [\<lparr>user_id = next_user_id d, email = t, password_hash = h\<rparr>]"
proof (cases "dict_get body ''email''")
  case (Inl e)
  with assms show ?thesis by (simp add: register_def)
next
  case (Inr em)
  show ?thesis
  proof (cases "user_by_email d em")
    case (Inl e)
    with Inr assms show ?thesis by (simp add: register_def)
  next
    case rows: (Inr rows)
    then obtain t where t: "bind_param em = Inr t"
      and f: "rows = filter (\<lambda>u. email u = t) (users d)"
      by (auto simp: user_by_email_def split: sum.splits)
    show ?thesis
    proof (cases "scalar_one_or_none rows")
      case (Inl e)
      with rows Inr assms show ?thesis by (simp add: register_def)
    next
      case r: (Inr found)
      show ?thesis
      proof (cases found)
        case (Some u)
        with r rows Inr assms show ?thesis by (simp add: register_def)
      next
        case None
        with r have "rows = []" by (simp add: scalar_one_or_none_None)
        with f have "filter (\<lambda>u. email u = t) (users d) = []" by simp
        then have fresh: "t \<notin> email ` set (users d)"
          unfolding filter_empty_conv by blast
        show ?thesis
        proof (cases "create_user sp d body fault")
          case (Inl e)
          with None r rows Inr assms show ?thesis by (simp add: register_def)
        next
          case d': (Inr d')
          with Inr t obtain h where
            "users d' = users d @ [\<lparr>user_id = next_user_id d, email = t, password_hash = h\<rparr>]"
            by (auto simp: create_user_def commit_def split: sum.splits option.splits)
          with None r rows Inr d' t fresh show ?thesis by (simp add: register_def)
        qed
      qed
    qed
  qed
qed

lemma register_keeps_emails_unique:
  assumes "distinct (map email (users d))"
  shows "distinct (map email (users (snd (register sp d body fault))))"
proof (cases "\<exists>b. fst (register sp d body fault) = Reply 201 b")
  case True
  then obtain b where "fst (register sp d body fault) = Reply 201 b" by blast
  from register_created [OF this] assms show ?thesis by auto
next
  case False
  then have "snd (register sp d body fault) = d"
    by (auto simp: register_def split: sum.splits option.splits)
  with assms show ?thesis by simp
qed

lemma register_twice_conflict:
  assumes uniq: "distinct (map email (users d))"
    and first: "fst (register sp d body fault) = Reply 201 b"
  shows "register sp' (snd (register sp d body fault)) body fault' =
           (Reply 409 (message ''User already exists. Please Log in.''),
            snd (register sp d body fault))"
proof -
  let ?d' = "snd (register sp d body fault)"
  from register_created [OF first] obtain em t h where
    em: "dict_get body ''email'' = Inr em" and t: "bind_param em = Inr t"
    and us: "users ?d' = users d @ [\<lparr>user_id = next_user_id d, email = t, password_hash = h\<rparr>]"
    by blast
  let ?u = "\<lparr>user_id = next_user_id d, email = t, password_hash = h\<rparr>"
  have "distinct (map email (users ?d'))"
    using uniq by (rule register_keeps_emails_unique)
  moreover have "?u \<in> set (users ?d')" by (simp add: us)
  ultimately have "user_by_email ?d' em = Inr [?u]"
    using t by (simp add: user_by_email_found)
  then show ?thesis using em by (simp add: register_def)
qed

section \<open>Updating an event\<close>

text \<open>
  C10. \<open>event_update\<close> filters by \<open>event_id\<close>, an attribute \<open>Event\<close> does
  not have, where \<open>delete_event\<close> filters by \<open>id\<close>. So for every request the
  lookup of \<open>event_update\<close> raises, nothing catches the exception, the store is
  unchanged and the success answer is never reached; \<open>delete_event\<close> on an
  existing event succeeds.
\<close>

theorem event_update_always_raises:
  assumes "''event_id'' \<notin> set event_attrs" and "''id'' \<in> set event_attrs"
  shows "event_update event_attrs sc d event_id body fault = (Raised InvalidRequestError, d) \<and>
         status (fst (event_update event_attrs sc d event_id body fault)) = 500 \<and>
         (filter (\<lambda>r. col r ''id'' = JNum i) (events d) = [ev] \<longrightarrow>
            fst (delete_event event_attrs d i None) =
              Reply 200 (message (''Event '' @ decimal i @ '' deleted.'')))"
  using assms by (simp add: event_update_def delete_event_def filter_by_def commit_def)

theorem event_update_always_raises_witness:
  "event_update sample_event_attrs sample_schema sample_db ''1'' (JObj [(''type'', JStr ''winter'')]) None =
     (Raised InvalidRequestError, sample_db) \<and>
   fst (delete_event sample_event_attrs sample_db 1 None) =
     Reply 200 (message (''Event '' @ decimal 1 @ '' deleted.''))"
  using event_update_always_raises [of sample_event_attrs sample_schema sample_db "''1''"
      "JObj [(''type'', JStr ''winter'')]" None 1 sample_event]
  by (simp add: sample_event_attrs_def sample_db_def sample_event_def col_def)

end
